theory Spec2Isabelle
  imports Complex_Main "HOL-Library.Sublist"
begin

section \<open>Python values\<close>

text \<open>
  The Lambda works on what \<^verbatim>\<open>json.loads\<close> returns: \<^verbatim>\<open>None\<close>, booleans, unbounded
  integers, floats, strings, lists and dictionaries with string keys. A finite float is the
  real number it denotes, with negative zero and the special values apart; comparisons of
  Python numbers are exact, so the order of \<open>real\<close> is the order of finite floats. A string
  is the UTF-8 encoding of the Python \<^verbatim>\<open>str\<close>. A dictionary is an association list read
  with \<open>map_of\<close>.
\<close>

datatype pyfloat = Fin real | NegZero | PInf | NInf | NaN

datatype json =
    JNull
  | JBool bool
  | JInt int
  | JFloat pyfloat
  | JStr string
  | JList "json list"
  | JDict "(string \<times> json) list"

text \<open>The value of an \<^verbatim>\<open>int\<close> or \<^verbatim>\<open>float\<close> instance (\<^verbatim>\<open>bool\<close> is a subclass of \<^verbatim>\<open>int\<close>).\<close>

datatype pynum = PInt int | PFloat pyfloat

datatype pyerr =
    AttributeError
  | TypeError
  | OverflowError
  | RuntimeError string
  | HTTPError int string
  | URLError string
  | TransportError string

text \<open>\<^verbatim>\<open>isinstance(v, (int, float))\<close>, with the number it then denotes.\<close>

fun as_number :: "json \<Rightarrow> pynum option" where
  "as_number (JBool b) = Some (PInt (if b then 1 else 0))"
| "as_number (JInt i) = Some (PInt i)"
| "as_number (JFloat f) = Some (PFloat f)"
| "as_number _ = None"

text \<open>Python's \<^verbatim>\<open>x > n\<close> and \<^verbatim>\<open>x <= n\<close> for a number \<open>x\<close> and an integer literal \<open>n\<close>:
  every comparison with NaN is false.\<close>

fun num_gt :: "pynum \<Rightarrow> int \<Rightarrow> bool" where
  "num_gt (PInt i) n = (i > n)"
| "num_gt (PFloat (Fin r)) n = (r > of_int n)"
| "num_gt (PFloat NegZero) n = (0 > n)"
| "num_gt (PFloat PInf) n = True"
| "num_gt (PFloat NInf) n = False"
| "num_gt (PFloat NaN) n = False"

fun num_le :: "pynum \<Rightarrow> int \<Rightarrow> bool" where
  "num_le (PInt i) n = (i \<le> n)"
| "num_le (PFloat (Fin r)) n = (r \<le> of_int n)"
| "num_le (PFloat NegZero) n = (0 \<le> n)"
| "num_le (PFloat PInf) n = False"
| "num_le (PFloat NInf) n = True"
| "num_le (PFloat NaN) n = False"

text \<open>Truth value of a Python object (\<^verbatim>\<open>if x\<close>, \<^verbatim>\<open>not x\<close>, \<^verbatim>\<open>x or y\<close>).\<close>

fun truthy :: "json \<Rightarrow> bool" where
  "truthy JNull = False"
| "truthy (JBool b) = b"
| "truthy (JInt i) = (i \<noteq> 0)"
| "truthy (JFloat f) = (f \<noteq> Fin 0 \<and> f \<noteq> NegZero)"
| "truthy (JStr s) = (s \<noteq> [])"
| "truthy (JList xs) = (xs \<noteq> [])"
| "truthy (JDict m) = (m \<noteq> [])"

definition py_or :: "json \<Rightarrow> json \<Rightarrow> json" where
  "py_or x y = (if truthy x then x else y)"

text \<open>\<^verbatim>\<open>m.get(k)\<close> on a dictionary.\<close>

definition dict_get :: "(string \<times> json) list \<Rightarrow> string \<Rightarrow> json" where
  "dict_get m k = (case map_of m k of None \<Rightarrow> JNull | Some v \<Rightarrow> v)"

text \<open>\<^verbatim>\<open>x.get(k)\<close> on any object: only a dictionary has the method.\<close>

fun py_get :: "json \<Rightarrow> string \<Rightarrow> pyerr + json" where
  "py_get (JDict m) k = Inr (dict_get m k)"
| "py_get _ k = Inl AttributeError"

section \<open>Severity\<close>

record severity =
  color :: string
  emoji :: string
  label :: string

definition get_severity_details :: "pynum option \<Rightarrow> severity" where
  "get_severity_details impact =
     (case impact of
        None \<Rightarrow> \<lparr>color = ''#78909C'', emoji = '':information_source:'', label = ''UNKNOWN''\<rparr>
      | Some x \<Rightarrow>
          if num_gt x 100 then
            \<lparr>color = ''#C62828'', emoji = '':rotating_light:'', label = ''HIGH''\<rparr>
          else if num_gt x 50 then
            \<lparr>color = ''#FFC107'', emoji = '':warning:'', label = ''MEDIUM''\<rparr>
          else
            \<lparr>color = ''#2196F3'', emoji = '':information_source:'', label = ''LOW''\<rparr>)"

section \<open>Strings\<close>

text \<open>
  Functions of Python's standard library that the Lambda calls and whose results depend on
  the float format or on the JSON grammar. They are not code of the repository and are taken
  as parameters: \<open>loads\<close> is \<^verbatim>\<open>json.loads\<close> on a string (\<open>None\<close> when it raises),
  \<open>repr_of\<close> is \<^verbatim>\<open>str\<close> on a float, a list or a dictionary, and \<open>fmt_2f\<close> is the text
  of the format \<^verbatim>\<open>,.2f\<close> for a number that converts to a float.
\<close>

record pylib =
  loads :: "string \<Rightarrow> json option"
  repr_of :: "json \<Rightarrow> string"
  fmt_2f :: "pynum \<Rightarrow> string"

fun digits :: "nat \<Rightarrow> string" where
  "digits n = (if n < 10 then [char_of (48 + n)] else digits (n div 10) @ [char_of (48 + n mod 10)])"

definition str_int :: "int \<Rightarrow> string" where
  "str_int i = (if i < 0 then ''-'' @ digits (nat (- i)) else digits (nat i))"

text \<open>\<^verbatim>\<open>str(v)\<close>, which is also what an f-string prints for \<^verbatim>\<open>{v}\<close>.\<close>

fun py_str :: "pylib \<Rightarrow> json \<Rightarrow> string" where
  "py_str L (JStr s) = s"
| "py_str L JNull = ''None''"
| "py_str L (JBool b) = (if b then ''True'' else ''False'')"
| "py_str L (JInt i) = str_int i"
| "py_str L v = repr_of L v"

text \<open>The format \<^verbatim>\<open>,.2f\<close> converts an integer to a float first, and the conversion raises
  \<^verbatim>\<open>OverflowError\<close> when the integer rounds to a magnitude beyond the largest float.\<close>

definition format_2f :: "pylib \<Rightarrow> pynum \<Rightarrow> pyerr + string" where
  "format_2f L x =
     (case x of
        PInt i \<Rightarrow> if \<bar>i\<bar> \<ge> 2 ^ 1024 - 2 ^ 970 then Inl OverflowError else Inr (fmt_2f L x)
      | PFloat f \<Rightarrow> Inr (fmt_2f L x))"

text \<open>The characters \<^verbatim>\<open>str.strip()\<close> removes (those with \<^verbatim>\<open>isspace()\<close>), in UTF-8.\<close>

definition whitespace :: "string list" where
  "whitespace =
     map (\<lambda>c. [c]) [CHR 0x09, CHR 0x0A, CHR 0x0B, CHR 0x0C, CHR 0x0D,
                     CHR 0x1C, CHR 0x1D, CHR 0x1E, CHR 0x1F, CHR 0x20]
     @ [[CHR 0xC2, CHR 0x85], [CHR 0xC2, CHR 0xA0], [CHR 0xE1, CHR 0x9A, CHR 0x80]]
     @ map (\<lambda>c. [CHR 0xE2, CHR 0x80, c])
         [CHR 0x80, CHR 0x81, CHR 0x82, CHR 0x83, CHR 0x84, CHR 0x85, CHR 0x86, CHR 0x87,
          CHR 0x88, CHR 0x89, CHR 0x8A, CHR 0xA8, CHR 0xA9, CHR 0xAF]
     @ [[CHR 0xE2, CHR 0x81, CHR 0x9F], [CHR 0xE3, CHR 0x80, CHR 0x80]]"

function lstrip_with :: "string list \<Rightarrow> string \<Rightarrow> string" where
  "lstrip_with ws s =
     (case List.find (\<lambda>w. w \<noteq> [] \<and> prefix w s) ws of
        None \<Rightarrow> s
      | Some w \<Rightarrow> lstrip_with ws (drop (length w) s))"
  by pat_completeness auto
termination
proof (relation "measure (\<lambda>(ws, s). length s)")
  show "wf (measure (\<lambda>(ws, s). length s))" by simp
next
  fix ws :: "string list" and s w :: string
  assume "List.find (\<lambda>w. w \<noteq> [] \<and> prefix w s) ws = Some w"
  then have "w \<noteq> []" and "prefix w s"
    by (auto simp: find_Some_iff)
  then have "s \<noteq> []" by auto
  with \<open>w \<noteq> []\<close> show "((ws, drop (length w) s), (ws, s)) \<in> measure (\<lambda>(ws, s). length s)"
    by simp
qed

definition strip :: "string \<Rightarrow> string" where
  "strip s = rev (lstrip_with (map rev whitespace) (rev (lstrip_with whitespace s)))"

text \<open>\<^verbatim>\<open>sep.join(parts)\<close>.\<close>

fun join :: "string \<Rightarrow> string list \<Rightarrow> string" where
  "join sep [] = []"
| "join sep [p] = p"
| "join sep (p # q # ps) = p @ sep @ join sep (q # ps)"

fun format_date :: "json \<Rightarrow> json" where
  "format_date (JStr s) =
     (if CHR ''T'' \<in> set s then JStr (takeWhile (\<lambda>c. c \<noteq> CHR ''T'') s) else JStr s)"
| "format_date v = v"

section \<open>Field resolution\<close>

text \<open>\<^verbatim>\<open>_safe_get\<close>: the loop over the path, inside \<^verbatim>\<open>try\<close>; the \<^verbatim>\<open>AttributeError\<close> of
  \<^verbatim>\<open>.get\<close> on an object that is not a dictionary is caught and gives the default.\<close>

fun safe_get :: "json \<Rightarrow> string list \<Rightarrow> json \<Rightarrow> json" where
  "safe_get cur [] dflt = (if cur \<noteq> JNull then cur else dflt)"
| "safe_get cur (k # path) dflt =
     (if cur = JNull then dflt
      else case py_get cur k of
             Inl e \<Rightarrow> dflt
           | Inr nxt \<Rightarrow> safe_get nxt path dflt)"

fun get_any :: "json \<Rightarrow> string list list \<Rightarrow> json \<Rightarrow> json" where
  "get_any d [] dflt = dflt"
| "get_any d (p # paths) dflt =
     (let val = safe_get d p JNull
      in if val \<noteq> JNull then val else get_any d paths dflt)"

text \<open>The resolution policy in the words of the specification: the full traversal of a
  path yields a value when every key on the way is found in an object and the value reached
  is not null.\<close>

fun traverse :: "json \<Rightarrow> string list \<Rightarrow> json option" where
  "traverse v [] = (if v = JNull then None else Some v)"
| "traverse (JDict m) (k # path) =
     (case map_of m k of None \<Rightarrow> None | Some v \<Rightarrow> traverse v path)"
| "traverse _ (k # path) = None"

definition first_resolved :: "json \<Rightarrow> string list list \<Rightarrow> json \<Rightarrow> json" where
  "first_resolved d paths dflt =
     (case List.find (\<lambda>p. traverse d p \<noteq> None) paths of
        None \<Rightarrow> dflt
      | Some p \<Rightarrow> the (traverse d p))"

section \<open>Account info\<close>

fun is_list :: "json \<Rightarrow> bool" where
  "is_list (JList xs) = True"
| "is_list _ = False"

definition get_account_info :: "pylib \<Rightarrow> json \<Rightarrow> json \<times> json" where
  "get_account_info L anomaly =
     (let root_causes =
            py_or (get_any anomaly [[''RootCauses''], [''rootCauses'']] (JList [])) (JList [])
      in if \<not> truthy root_causes \<or> \<not> is_list root_causes then (JNull, JNull)
         else case root_causes of
           JList (first # rest) \<Rightarrow>
             (let rc = py_or first (JDict []);
                  account_id = get_any rc [[''LinkedAccount''], [''linkedAccount'']] JNull
              in if \<not> truthy account_id then (JNull, JNull)
                 else
                   let acct_name =
                         get_any rc [[''LinkedAccountName''], [''linkedAccountName'']] JNull;
                       clean_acct = strip (py_str L account_id)
                   in (JStr clean_acct, acct_name))
         | _ \<Rightarrow> (JNull, JNull))"

section \<open>Rendering\<close>

definition newline :: string where
  "newline = [CHR 0x0A]"

text \<open>The arrow U+2192 of the window line and of the footer.\<close>

definition arrow :: string where
  "arrow = [CHR 0xE2, CHR 0x86, CHR 0x92]"

text \<open>The dictionary \<^verbatim>\<open>{"type": "mrkdwn", "text": t}\<close>.\<close>

definition mrkdwn :: "string \<Rightarrow> json" where
  "mrkdwn t = JDict [(''type'', JStr ''mrkdwn''), (''text'', JStr t)]"

text \<open>The root cause summary of \<^verbatim>\<open>_build_blocks_for_anomaly\<close> (the top item only): the
  fields it appends, none or one.\<close>

definition root_cause_fields :: "pylib \<Rightarrow> json \<Rightarrow> json list" where
  "root_cause_fields L anomaly =
     (let root_causes =
            py_or (get_any anomaly [[''RootCauses''], [''rootCauses'']] (JList [])) (JList [])
      in if truthy root_causes \<and> is_list root_causes then
           (case root_causes of
              JList (first # rest) \<Rightarrow>
                (let rc = py_or first (JDict []);
                     service = get_any rc [[''Service''], [''service'']] JNull;
                     account = get_any rc [[''LinkedAccount''], [''linkedAccount'']] JNull;
                     region = get_any rc [[''Region''], [''region'']] JNull;
                     usage = get_any rc [[''UsageType''], [''usageType'']] JNull;
                     rc_parts =
                       (if truthy service then [''Service: '' @ py_str L service] else [])
                       @ (if truthy region then [''Region: '' @ py_str L region] else [])
                       @ (if truthy usage then [''Usage: '' @ py_str L usage] else [])
                 in if rc_parts \<noteq> [] then
                      [mrkdwn (''*Root cause*'' @ newline @ join '' | '' rc_parts)]
                    else [])
            | _ \<Rightarrow> [])
         else [])"

text \<open>The text of an impact figure: \<^verbatim>\<open>f"{v:,.2f}"\<close> between a prefix and a suffix when
  \<open>v\<close> is a number, \<^verbatim>\<open>"n/a"\<close> otherwise.\<close>

definition figure_text :: "pylib \<Rightarrow> string \<Rightarrow> json \<Rightarrow> string \<Rightarrow> pyerr + string" where
  "figure_text L pre v post =
     (case as_number v of
        Some x \<Rightarrow> (case format_2f L x of Inl e \<Rightarrow> Inl e | Inr t \<Rightarrow> Inr (pre @ t @ post))
      | None \<Rightarrow> Inr ''n/a'')"

definition build_blocks_for_anomaly :: "pylib \<Rightarrow> json \<Rightarrow> pyerr + json list" where
  "build_blocks_for_anomaly L anomaly =
     (let impact_total =
            get_any anomaly [[''Impact'', ''TotalImpact''], [''impact'', ''totalImpact'']] JNull;
          sev_details = get_severity_details (as_number impact_total)
      in case figure_text L ''$'' impact_total [] of
           Inl e \<Rightarrow> Inl e
         | Inr impact_text \<Rightarrow>
      let impact_pct =
            get_any anomaly
              [[''Impact'', ''TotalImpactPercentage''], [''impact'', ''totalImpactPercentage'']]
              JNull
      in case figure_text L [] impact_pct ''%'' of
           Inl e \<Rightarrow> Inl e
         | Inr impact_pct_text \<Rightarrow>
      let start = get_any anomaly [[''AnomalyStartDate''], [''anomalyStartDate'']] JNull;
          end = get_any anomaly [[''AnomalyEndDate''], [''anomalyEndDate'']] JNull;
          start_fmt = format_date start;
          end_fmt = format_date end;
          window =
            (if truthy start \<or> truthy end then
               [mrkdwn (''*Window*'' @ newline @ py_str L (py_or start_fmt (JStr ''-''))
                        @ '' '' @ arrow @ '' '' @ py_str L (py_or end_fmt (JStr ''-'')))]
             else []);
          anomaly_id = get_any anomaly [[''AnomalyId''], [''anomalyId'']] JNull;
          fields =
            window
            @ [mrkdwn (''*Estimated impact*'' @ newline @ impact_text @ '' USD'')]
            @ [mrkdwn (''*Impact %*'' @ newline @ impact_pct_text)]
            @ root_cause_fields L anomaly
            @ (if truthy anomaly_id then
                 [mrkdwn (''*Anomaly ID*'' @ newline @ py_str L anomaly_id)]
               else []);
          header_title =
            emoji sev_details @ '' AWS Cost Anomaly Detected: '' @ label sev_details
            @ '' '' @ emoji sev_details;
          acct = get_account_info L anomaly;
          acct_id = fst acct;
          acct_name = snd acct;
          detail_line =
            (if truthy acct_name then
               JStr (py_str L acct_name @ '' ('' @ py_str L acct_id @ '')'')
             else if truthy acct_id then JStr (''Account: '' @ py_str L acct_id)
             else JNull);
          console_url =
            get_any anomaly [[''anomalyDetailsLink''], [''AnomalyDetailsLink'']]
              (JStr ''https://console.aws.amazon.com/cost-management/home?#/anomaly-detection/anomalies'')
      in Inr
           [JDict [(''type'', JStr ''header''),
                   (''text'', JDict [(''type'', JStr ''plain_text''),
                                     (''text'', JStr header_title),
                                     (''emoji'', JBool True)])],
            JDict ([(''type'', JStr ''section'')]
                   @ (if truthy detail_line then
                        [(''text'', JDict [(''type'', JStr ''mrkdwn''), (''text'', detail_line)])]
                      else [])
                   @ [(''fields'', JList fields)]),
            JDict [(''type'', JStr ''actions''),
                   (''elements'',
                    JList [JDict [(''type'', JStr ''button''),
                                  (''text'', JDict [(''type'', JStr ''plain_text''),
                                                    (''text'', JStr ''Open in AWS Console'')]),
                                  (''url'', console_url),
                                  (''style'', JStr ''primary'')]])],
            JDict [(''type'', JStr ''context''),
                   (''elements'',
                    JList [mrkdwn (''Sent by Cost Anomaly Detection '' @ arrow @ '' SNS ''
                                   @ arrow @ '' Lambda '' @ arrow @ '' Slack'')])]])"

text \<open>The fallback payload of \<^verbatim>\<open>_build_payload\<close>.\<close>

definition fallback_payload :: "pylib \<Rightarrow> json \<Rightarrow> json" where
  "fallback_payload L raw_text =
     JDict [(''blocks'',
             JList [JDict [(''type'', JStr ''header''),
                           (''text'',
                            JDict [(''type'', JStr ''plain_text''),
                                   (''text'', JStr '':rotating_light: AWS Cost Anomaly Notification :rotating_light:''),
                                   (''emoji'', JBool True)])],
                    JDict [(''type'', JStr ''section''),
                           (''text'',
                            JDict [(''type'', JStr ''mrkdwn''),
                                   (''text'', JStr (''```'' @ py_str L raw_text @ ''```''))])]])]"

definition build_payload :: "pylib \<Rightarrow> json \<Rightarrow> json \<Rightarrow> pyerr + json" where
  "build_payload L anomaly raw_text =
     (if truthy anomaly \<and> truthy (get_any anomaly [[''AnomalyId''], [''anomalyId'']] JNull) then
        (let impact =
               get_any anomaly [[''Impact'', ''TotalImpact''], [''impact'', ''totalImpact'']] JNull;
             sev_details = get_severity_details (as_number impact)
         in case build_blocks_for_anomaly L anomaly of
              Inl e \<Rightarrow> Inl e
            | Inr blocks \<Rightarrow>
                Inr (JDict [(''attachments'',
                             JList [JDict [(''color'', JStr (color sev_details)),
                                           (''blocks'', JList blocks)]])]))
      else Inr (fallback_payload L raw_text))"

section \<open>The handler\<close>

text \<open>\<^verbatim>\<open>json.loads(msg_str)\<close> on whatever the record holds: anything but a string raises
  \<^verbatim>\<open>TypeError\<close>, which the handler catches like a parse error.\<close>

definition json_loads :: "pylib \<Rightarrow> json \<Rightarrow> json option" where
  "json_loads L msg_str = (case msg_str of JStr s \<Rightarrow> loads L s | _ \<Rightarrow> None)"

text \<open>The choice of the anomaly object, from the outcome of the parse (\<open>None\<close> when it
  raised); \<open>JNull\<close> is the \<^verbatim>\<open>None\<close> of \<^verbatim>\<open>anomaly_payload\<close>.\<close>

definition select_anomaly :: "json option \<Rightarrow> json" where
  "select_anomaly outcome =
     (case outcome of
        None \<Rightarrow> JNull
      | Some parsed \<Rightarrow>
          (case parsed of
             JDict m \<Rightarrow>
               if truthy (py_or (dict_get m ''AnomalyId'') (dict_get m ''anomalyId'')) then parsed
               else
                 (let detail = (case dict_get m ''detail'' of JDict d \<Rightarrow> d | _ \<Rightarrow> [])
                  in if truthy (py_or (dict_get detail ''AnomalyId'') (dict_get detail ''anomalyId''))
                     then JDict detail else JNull)
           | _ \<Rightarrow> JNull))"

definition anomaly_payload :: "pylib \<Rightarrow> json \<Rightarrow> json" where
  "anomaly_payload L msg_str = select_anomaly (json_loads L msg_str)"

text \<open>What one message renders to: \<^verbatim>\<open>_build_payload(anomaly_payload, msg_str)\<close>.\<close>

definition render_message :: "pylib \<Rightarrow> json \<Rightarrow> pyerr + json" where
  "render_message L msg_str = build_payload L (anomaly_payload L msg_str) msg_str"

text \<open>\<^verbatim>\<open>x.get(k, default)\<close>: the default stands for a missing key only.\<close>

fun py_get_default :: "json \<Rightarrow> string \<Rightarrow> json \<Rightarrow> pyerr + json" where
  "py_get_default (JDict m) k dflt = Inr (case map_of m k of None \<Rightarrow> dflt | Some v \<Rightarrow> v)"
| "py_get_default _ k dflt = Inl AttributeError"

text \<open>The body of the loop up to the payload of the record.\<close>

definition record_payload :: "pylib \<Rightarrow> json \<Rightarrow> pyerr + json" where
  "record_payload L record =
     (case py_get record ''Sns'' of
        Inl e \<Rightarrow> Inl e
      | Inr sns_value \<Rightarrow>
          (case py_get_default (py_or sns_value (JDict [])) ''Message'' (JStr []) of
             Inl e \<Rightarrow> Inl e
           | Inr msg_str \<Rightarrow> render_message L msg_str))"

text \<open>
  The world outside: the lines written to the standard error stream and the requests handed
  to the transport, in order. The network answers each request; its answer may depend on how
  many requests came before. A request is recorded as the URL and the payload object that
  \<^verbatim>\<open>_post_to_slack\<close> serialises. An answer is a delivery, one of the two errors that
  \<^verbatim>\<open>_post_to_slack\<close> catches, or any other exception of the call (\<open>Other_error\<close>: a read
  timeout, a connection dropped while the response is read, a malformed URL), which no
  handler catches. The dump of the event that the handler prints to the standard output
  first is left out.
\<close>

record world =
  stderr :: "string list"
  posts :: "(string \<times> json) list"

datatype response =
    Delivered
  | Http_error int string
  | Url_error string
  | Other_error string

type_synonym network = "nat \<Rightarrow> string \<Rightarrow> json \<Rightarrow> response"

definition post_to_slack ::
  "network \<Rightarrow> string \<Rightarrow> json \<Rightarrow> world \<Rightarrow> (pyerr + unit) \<times> world" where
  "post_to_slack net webhook_url payload w =
     (let sent = w\<lparr>posts := posts w @ [(webhook_url, payload)]\<rparr>
      in case net (length (posts w)) webhook_url payload of
           Delivered \<Rightarrow> (Inr (), sent)
         | Http_error code reason \<Rightarrow>
             (Inl (HTTPError code reason),
              sent\<lparr>stderr := stderr sent
                 @ [''Slack webhook HTTPError: '' @ str_int code @ '' '' @ reason]\<rparr>)
         | Url_error reason \<Rightarrow>
             (Inl (URLError reason),
              sent\<lparr>stderr := stderr sent @ [''Slack webhook URLError: '' @ reason]\<rparr>)
         | Other_error reason \<Rightarrow> (Inl (TransportError reason), sent))"

fun process_records ::
  "pylib \<Rightarrow> network \<Rightarrow> string \<Rightarrow> json list \<Rightarrow> world \<Rightarrow> (pyerr + unit) \<times> world" where
  "process_records L net webhook_url [] w = (Inr (), w)"
| "process_records L net webhook_url (record # records) w =
     (case record_payload L record of
        Inl e \<Rightarrow> (Inl e, w)
      | Inr payload \<Rightarrow>
          (case post_to_slack net webhook_url payload w of
             (Inl e, w') \<Rightarrow> (Inl e, w')
           | (Inr u, w') \<Rightarrow> process_records L net webhook_url records w'))"

text \<open>\<open>webhook\<close> is \<^verbatim>\<open>os.environ.get("SLACK_WEBHOOK_URL")\<close>. A truthy \<^verbatim>\<open>Records\<close> that is
  not a list is a non-empty string or dictionary, whose first element is a string without
  \<^verbatim>\<open>.get\<close>, or a number, which cannot be iterated.\<close>

definition handler ::
  "pylib \<Rightarrow> network \<Rightarrow> string option \<Rightarrow> json \<Rightarrow> world \<Rightarrow> (pyerr + json) \<times> world" where
  "handler L net webhook event w =
     (let not_set =
            (Inl (RuntimeError ''SLACK_WEBHOOK_URL not set''),
             w\<lparr>stderr := stderr w @ [''Missing SLACK_WEBHOOK_URL environment variable'']\<rparr>)
      in case webhook of
           None \<Rightarrow> not_set
         | Some webhook_url \<Rightarrow>
             if webhook_url = [] then not_set
             else
               (case py_get event ''Records'' of
                  Inl e \<Rightarrow> (Inl e, w)
                | Inr records_value \<Rightarrow>
                    (case py_or records_value (JList []) of
                       JList records \<Rightarrow>
                         (case process_records L net webhook_url records w of
                            (Inl e, w') \<Rightarrow> (Inl e, w')
                          | (Inr u, w') \<Rightarrow>
                              (Inr (JDict [(''status'', JStr ''ok''),
                                           (''delivered'', JInt (int (length records)))]),
                               w'))
                     | JStr s \<Rightarrow> (Inl AttributeError, w)
                     | JDict m \<Rightarrow> (Inl AttributeError, w)
                     | _ \<Rightarrow> (Inl TypeError, w))))"

section \<open>Notions of the specification\<close>

text \<open>An object carries a usable anomaly identifier when the value under \<^verbatim>\<open>AnomalyId\<close> or
  under \<^verbatim>\<open>anomalyId\<close> is truthy: this is the test of the handler.\<close>

definition has_identifier :: "(string \<times> json) list \<Rightarrow> bool" where
  "has_identifier m = (truthy (dict_get m ''AnomalyId'') \<or> truthy (dict_get m ''anomalyId''))"

text \<open>An object has an identifier field when one of the two keys is present, whatever its
  value.\<close>

definition has_identifier_field :: "(string \<times> json) list \<Rightarrow> bool" where
  "has_identifier_field m = (map_of m ''AnomalyId'' \<noteq> None \<or> map_of m ''anomalyId'' \<noteq> None)"

text \<open>The object found under \<^verbatim>\<open>detail\<close>, empty when there is none.\<close>

definition detail_of :: "(string \<times> json) list \<Rightarrow> (string \<times> json) list" where
  "detail_of m = (case dict_get m ''detail'' of JDict d \<Rightarrow> d | _ \<Rightarrow> [])"

text \<open>A parsed message lacks the identifier field when it is no object, or neither the
  object nor the object under \<^verbatim>\<open>detail\<close> (if any) has it.\<close>

definition lacks_identifier_field :: "json \<Rightarrow> bool" where
  "lacks_identifier_field parsed =
     (case parsed of
        JDict m \<Rightarrow> \<not> has_identifier_field m \<and> \<not> has_identifier_field (detail_of m)
      | _ \<Rightarrow> True)"

section \<open>Sample inputs\<close>

text \<open>Message texts with the objects \<^verbatim>\<open>json.loads\<close> gives for them, and a library that
  agrees with Python on these texts and on the numbers they hold; \<open>repr_of\<close> is not reached
  by them.\<close>

definition sample_messages :: "(string \<times> json) list" where
  \<open>sample_messages =
     [(''{"AnomalyId": ""}'', JDict [(''AnomalyId'', JStr [])]),
      (''{"AnomalyId": "a1", "Impact": {"TotalImpact": 7}}'',
       JDict [(''AnomalyId'', JStr ''a1''), (''Impact'', JDict [(''TotalImpact'', JInt 7)])]),
      (''{"anomalyId": "a1", "impact": {"totalImpact": 7}}'',
       JDict [(''anomalyId'', JStr ''a1''), (''impact'', JDict [(''totalImpact'', JInt 7)])]),
      (''{"detail": {"AnomalyId": "a1", "Impact": {"TotalImpact": 7}}}'',
       JDict [(''detail'',
               JDict [(''AnomalyId'', JStr ''a1''),
                      (''Impact'', JDict [(''TotalImpact'', JInt 7)])])]),
      (''{"Impact": {"TotalImpact": 7}}'', JDict [(''Impact'', JDict [(''TotalImpact'', JInt 7)])]),
      (''{"impact": {"totalImpact": 7}}'', JDict [(''impact'', JDict [(''totalImpact'', JInt 7)])]),
      (''{"AnomalyId": "", "anomalyId": 0, "detail": {"AnomalyId": false, "anomalyId": null}}'',
       JDict [(''AnomalyId'', JStr []), (''anomalyId'', JInt 0),
              (''detail'', JDict [(''AnomalyId'', JBool False), (''anomalyId'', JNull)])]),
      (''[1, 2]'', JList [JInt 1, JInt 2])]\<close>

definition sample_lib :: pylib where
  "sample_lib =
     \<lparr>loads = map_of sample_messages,
      repr_of = (\<lambda>v. []),
      fmt_2f = (\<lambda>x. if x = PInt 7 then ''7.00'' else [])\<rparr>"

text \<open>A record that carries a message, a webhook URL, a network that delivers every request,
  one that answers the second request with the status 500, and one whose every request ends
  in a read timeout, which \<^verbatim>\<open>urlopen\<close> raises as it is, not as a \<^verbatim>\<open>URLError\<close>.\<close>

definition sample_url :: string where
  "sample_url = ''https://hooks.slack.com/services/T0/B0/x''"

definition sample_record :: "string \<Rightarrow> json" where
  "sample_record msg = JDict [(''Sns'', JDict [(''Message'', JStr msg)])]"

definition steady_network :: network where
  "steady_network n url payload = Delivered"



text \<open>The first root-cause entry, when the root causes resolve to a non-empty list, and the
  account id and name that field resolution finds in an entry.\<close>

definition first_root_cause :: "json \<Rightarrow> json option" where
  "first_root_cause anomaly =
     (case get_any anomaly [[''RootCauses''], [''rootCauses'']] JNull of
        JList (first # rest) \<Rightarrow> Some first
      | _ \<Rightarrow> None)"

definition linked_account :: "json \<Rightarrow> json" where
  "linked_account rc = get_any rc [[''LinkedAccount''], [''linkedAccount'']] JNull"

definition linked_account_name :: "json \<Rightarrow> json" where
  "linked_account_name rc = get_any rc [[''LinkedAccountName''], [''linkedAccountName'']] JNull"

text \<open>
  The two naming conventions. \<open>key_pairs\<close> lists the keys the Lambda reads, capitalized and
  lower-camel. The lower-camel twin of a payload has the same values under the lower-camel
  keys: in the payload itself, in the object under \<^verbatim>\<open>Impact\<close> and in the entries of the list
  under \<^verbatim>\<open>RootCauses\<close>. A payload uses the capitalized keys when none of the lower-camel
  keys occurs at these places. Its identifier is valid when the identifier field resolution
  finds is truthy: this is the test of \<^verbatim>\<open>_build_payload\<close>.
\<close>

definition key_pairs :: "(string \<times> string) list" where
  "key_pairs =
     [(''AnomalyId'', ''anomalyId''),
      (''Impact'', ''impact''),
      (''TotalImpact'', ''totalImpact''),
      (''TotalImpactPercentage'', ''totalImpactPercentage''),
      (''AnomalyStartDate'', ''anomalyStartDate''),
      (''AnomalyEndDate'', ''anomalyEndDate''),
      (''RootCauses'', ''rootCauses''),
      (''Service'', ''service''),
      (''LinkedAccount'', ''linkedAccount''),
      (''LinkedAccountName'', ''linkedAccountName''),
      (''Region'', ''region''),
      (''UsageType'', ''usageType''),
      (''AnomalyDetailsLink'', ''anomalyDetailsLink'')]"

definition camel_key :: "string \<Rightarrow> string" where
  "camel_key k = (case map_of key_pairs k of Some c \<Rightarrow> c | None \<Rightarrow> k)"

definition rename_keys ::
  "(string \<Rightarrow> json \<Rightarrow> json) \<Rightarrow> (string \<times> json) list \<Rightarrow> (string \<times> json) list" where
  "rename_keys f m = map (\<lambda>(k, x). (camel_key k, f k x)) m"

definition camel_object :: "json \<Rightarrow> json" where
  "camel_object v = (case v of JDict m \<Rightarrow> JDict (rename_keys (\<lambda>k x. x) m) | _ \<Rightarrow> v)"

definition camel_causes :: "json \<Rightarrow> json" where
  "camel_causes v = (case v of JList xs \<Rightarrow> JList (map camel_object xs) | _ \<Rightarrow> v)"

definition camel_field :: "string \<Rightarrow> json \<Rightarrow> json" where
  "camel_field k x =
     (if k = ''Impact'' then camel_object x
      else if k = ''RootCauses'' then camel_causes x
      else x)"

definition camel_payload :: "json \<Rightarrow> json" where
  "camel_payload v = (case v of JDict m \<Rightarrow> JDict (rename_keys camel_field m) | _ \<Rightarrow> v)"

definition capitalized_object :: "json \<Rightarrow> bool" where
  "capitalized_object v =
     (case v of JDict m \<Rightarrow> list_all (\<lambda>(k, x). k \<notin> set (map snd key_pairs)) m | _ \<Rightarrow> True)"

definition capitalized_payload :: "json \<Rightarrow> bool" where
  "capitalized_payload v =
     (case v of
        JDict m \<Rightarrow>
          capitalized_object v
          \<and> capitalized_object (dict_get m ''Impact'')
          \<and> (case dict_get m ''RootCauses'' of
               JList xs \<Rightarrow> list_all capitalized_object xs
             | _ \<Rightarrow> True)
      | _ \<Rightarrow> True)"

definition valid_identifier :: "json \<Rightarrow> bool" where
  "valid_identifier v = truthy (get_any v [[''AnomalyId''], [''anomalyId'']] JNull)"

text \<open>A value is an integer too large for a float when the conversion that the format
  \<^verbatim>\<open>,.2f\<close> makes overflows.\<close>

definition overflows :: "json \<Rightarrow> bool" where
  "overflows v =
     (case as_number v of Some (PInt i) \<Rightarrow> \<bar>i\<bar> \<ge> 2 ^ 1024 - 2 ^ 970 | _ \<Rightarrow> False)"

text \<open>A message whose total impact is the integer \<open>10 ^ 400\<close>, the object \<^verbatim>\<open>json.loads\<close> gives for
  it, and the sample library extended to this message.\<close>

definition huge_message :: string where
  \<open>huge_message =
     ''{"AnomalyId": "a1", "Impact": {"TotalImpact": 1'' @ replicate 400 (CHR ''0'') @ ''}}''\<close>

definition huge_anomaly :: json where
  "huge_anomaly =
     JDict [(''AnomalyId'', JStr ''a1''), (''Impact'', JDict [(''TotalImpact'', JInt (10 ^ 400))])]"

definition huge_lib :: pylib where
  "huge_lib = sample_lib\<lparr>loads := (loads sample_lib)(huge_message \<mapsto> huge_anomaly)\<rparr>"

section \<open>Properties of field resolution\<close>

lemma safe_get_traverse:
  "safe_get d p JNull = (case traverse d p of None \<Rightarrow> JNull | Some v \<Rightarrow> v)"
proof (induction d p rule: traverse.induct)
  case (1 v)
  show ?case by simp
next
  case (2 m k path)
  show ?case
  proof (cases "map_of m k")
    case None
    then show ?thesis by (cases path) (simp_all add: dict_get_def)
  next
    case (Some v)
    with 2 show ?thesis by (simp add: dict_get_def)
  qed
qed simp_all

lemma traverse_not_null: "traverse d p = Some v \<Longrightarrow> v \<noteq> JNull"
  by (induction d p rule: traverse.induct) (auto split: if_splits option.splits)

text \<open>
  C2. For every object, every ordered list of candidate key-paths and every default,
  \<open>get_any\<close> returns the value of the first path whose full traversal yields a non-null
  value; a traversal that meets a null or absent value on the way passes to the next
  candidate, and the caller's default is returned when no candidate resolves.
\<close>

theorem get_any_first_resolved:
  "get_any d paths dflt = first_resolved d paths dflt"
proof (induction paths)
  case Nil
  show ?case by (simp add: first_resolved_def)
next
  case (Cons p paths)
  show ?case
  proof (cases "traverse d p")
    case None
    with Cons show ?thesis
      by (simp add: first_resolved_def safe_get_traverse)
  next
    case (Some v)
    then have "v \<noteq> JNull" by (rule traverse_not_null)
    with Some show ?thesis
      by (simp add: first_resolved_def safe_get_traverse)
  qed
qed

theorem get_any_first_resolved_witness:
  "get_any (JDict [(''Impact'', JDict [(''TotalImpact'', JNull)]),
                   (''impact'', JDict [(''totalImpact'', JInt 7)])])
     [[''Impact'', ''TotalImpact''], [''impact'', ''totalImpact'']] JNull = JInt 7
   \<and> get_any (JDict [(''Impact'', JInt 3)])
     [[''Impact'', ''TotalImpact''], [''impact'', ''totalImpact'']] (JStr ''none'') = JStr ''none''"
  using get_any_first_resolved
    [of "JDict [(''Impact'', JDict [(''TotalImpact'', JNull)]),
                (''impact'', JDict [(''totalImpact'', JInt 7)])]"
        "[[''Impact'', ''TotalImpact''], [''impact'', ''totalImpact'']]" JNull]
  by (simp add: first_resolved_def dict_get_def)

section \<open>Properties of the severity classifier\<close>

text \<open>
  C3, as the specification states it, at the float NaN: the classifier answers LOW although
  \<^verbatim>\<open>x <= 50\<close> is false, so "LOW if and only if \<open>x \<le> 50\<close>" fails there.
\<close>

theorem severity_nan_counterexample:
  "label (get_severity_details (Some (PFloat NaN))) = ''LOW''
   \<and> \<not> num_le (PFloat NaN) 50"
  by (simp add: get_severity_details_def)

text \<open>
  C3, amended. For every numeric impact amount \<open>x\<close> other than NaN the classifier returns
  HIGH if and only if \<open>x > 100\<close>, MEDIUM if and only if \<open>50 < x \<le> 100\<close>, and LOW if and only
  if \<open>x \<le> 50\<close>; NaN, for which every comparison is false, yields LOW; an absent amount
  yields UNKNOWN; and every result is one of the four fixed tiers with its colour, icon and
  label. The classifier is a function of the amount alone.
\<close>

theorem severity_tiers:
  "(x \<noteq> PFloat NaN \<longrightarrow>
      (label (get_severity_details (Some x)) = ''HIGH'' \<longleftrightarrow> num_gt x 100)
    \<and> (label (get_severity_details (Some x)) = ''MEDIUM'' \<longleftrightarrow> num_gt x 50 \<and> num_le x 100)
    \<and> (label (get_severity_details (Some x)) = ''LOW'' \<longleftrightarrow> num_le x 50))
   \<and> label (get_severity_details (Some (PFloat NaN))) = ''LOW''
   \<and> get_severity_details None =
       \<lparr>color = ''#78909C'', emoji = '':information_source:'', label = ''UNKNOWN''\<rparr>
   \<and> get_severity_details impact \<in>
       {\<lparr>color = ''#78909C'', emoji = '':information_source:'', label = ''UNKNOWN''\<rparr>,
        \<lparr>color = ''#C62828'', emoji = '':rotating_light:'', label = ''HIGH''\<rparr>,
        \<lparr>color = ''#FFC107'', emoji = '':warning:'', label = ''MEDIUM''\<rparr>,
        \<lparr>color = ''#2196F3'', emoji = '':information_source:'', label = ''LOW''\<rparr>}"
proof -
  have cmp: "y \<noteq> PFloat NaN \<Longrightarrow> num_le y n = (\<not> num_gt y n)" for y n
  proof (cases y)
    case (PInt i)
    then show ?thesis by auto
  next
    case (PFloat f)
    assume "y \<noteq> PFloat NaN"
    with PFloat show ?thesis by (cases f) auto
  qed
  have mono: "num_gt y 100 \<Longrightarrow> num_gt y 50" for y
  proof (cases y)
    case (PInt i)
    assume "num_gt y 100"
    with PInt show ?thesis by simp
  next
    case (PFloat f)
    assume "num_gt y 100"
    with PFloat show ?thesis by (cases f) auto
  qed
  have tiers: "x \<noteq> PFloat NaN \<longrightarrow>
      (label (get_severity_details (Some x)) = ''HIGH'' \<longleftrightarrow> num_gt x 100)
    \<and> (label (get_severity_details (Some x)) = ''MEDIUM'' \<longleftrightarrow> num_gt x 50 \<and> num_le x 100)
    \<and> (label (get_severity_details (Some x)) = ''LOW'' \<longleftrightarrow> num_le x 50)"
    using mono [of x] by (auto simp: get_severity_details_def cmp)
  have nan: "label (get_severity_details (Some (PFloat NaN))) = ''LOW''"
    by (simp add: get_severity_details_def)
  have unknown: "get_severity_details None =
       \<lparr>color = ''#78909C'', emoji = '':information_source:'', label = ''UNKNOWN''\<rparr>"
    by (simp add: get_severity_details_def)
  have fixed: "get_severity_details impact \<in>
       {\<lparr>color = ''#78909C'', emoji = '':information_source:'', label = ''UNKNOWN''\<rparr>,
        \<lparr>color = ''#C62828'', emoji = '':rotating_light:'', label = ''HIGH''\<rparr>,
        \<lparr>color = ''#FFC107'', emoji = '':warning:'', label = ''MEDIUM''\<rparr>,
        \<lparr>color = ''#2196F3'', emoji = '':information_source:'', label = ''LOW''\<rparr>}"
    by (cases impact) (simp_all add: get_severity_details_def)
  from tiers nan unknown fixed show ?thesis by blast
qed

theorem severity_tiers_witness:
  "label (get_severity_details (Some (PInt 100))) = ''MEDIUM''
   \<and> label (get_severity_details (Some (PFloat (Fin 150.5)))) = ''HIGH''
   \<and> label (get_severity_details (Some (PInt 50))) = ''LOW''
   \<and> label (get_severity_details (Some (PInt (- 5)))) = ''LOW''"
  using severity_tiers [of "PInt 100" None] severity_tiers [of "PFloat (Fin 150.5)" None]
    severity_tiers [of "PInt 50" None] severity_tiers [of "PInt (- 5)" None]
  by simp

section \<open>Properties of the payload normalizer\<close>

lemma render_unrecognized:
  "anomaly_payload L msg = JNull \<Longrightarrow> render_message L msg = Inr (fallback_payload L msg)"
  by (simp add: render_message_def build_payload_def)

lemma truthy_py_or: "truthy (py_or a b) = (truthy a \<or> truthy b)"
  by (simp add: py_or_def)

lemma select_anomaly_dict:
  "select_anomaly (Some (JDict m)) =
     (if has_identifier m then JDict m
      else if has_identifier (detail_of m) then JDict (detail_of m) else JNull)"
  by (simp add: select_anomaly_def has_identifier_def detail_of_def truthy_py_or Let_def)

lemma select_anomaly_no_identifier:
  "\<not> has_identifier m \<Longrightarrow> \<not> has_identifier (detail_of m) \<Longrightarrow>
   select_anomaly (Some (JDict m)) = JNull"
  by (simp add: select_anomaly_dict)

lemma select_anomaly_flat:
  "has_identifier m \<Longrightarrow> select_anomaly (Some (JDict m)) = JDict m"
  by (simp add: select_anomaly_dict)

lemma select_anomaly_nested:
  "\<not> has_identifier m \<Longrightarrow> has_identifier (detail_of m) \<Longrightarrow>
   select_anomaly (Some (JDict m)) = JDict (detail_of m)"
  by (simp add: select_anomaly_dict)

lemma select_anomaly_not_object:
  "(\<And>m. parsed \<noteq> JDict m) \<Longrightarrow> select_anomaly (Some parsed) = JNull"
  by (cases parsed) (auto simp add: select_anomaly_def)

lemma no_field_no_identifier: "\<not> has_identifier_field m \<Longrightarrow> \<not> has_identifier m"
  by (simp add: has_identifier_field_def has_identifier_def dict_get_def)

lemma lacks_field_unrecognized:
  "lacks_identifier_field parsed \<Longrightarrow> select_anomaly (Some parsed) = JNull"
  by (cases parsed)
    (simp_all add: lacks_identifier_field_def select_anomaly_dict no_field_no_identifier,
      simp_all add: select_anomaly_def)

text \<open>
  C1, as the specification states it, at the message \<^verbatim>\<open>{"AnomalyId": ""}\<close>: the parsed
  object contains the identifier field, and yet it does not become the root; the message is
  unrecognized.
\<close>

theorem identifier_field_counterexample:
  \<open>loads sample_lib ''{"AnomalyId": ""}'' = Some (JDict [(''AnomalyId'', JStr [])])
   \<and> has_identifier_field [(''AnomalyId'', JStr [])]
   \<and> anomaly_payload sample_lib (JStr ''{"AnomalyId": ""}'') = JNull\<close>
  by (simp add: sample_lib_def sample_messages_def has_identifier_field_def
      anomaly_payload_def json_loads_def select_anomaly_def dict_get_def py_or_def)

text \<open>
  C1, amended. For every message string: when parsing fails or the parsed result is not an
  object, the normalizer returns "unrecognized"; when the parsed object holds a truthy value
  (not null, false, zero or empty) under \<^verbatim>\<open>AnomalyId\<close> or \<^verbatim>\<open>anomalyId\<close>, that object is
  the root; otherwise, when the object under \<^verbatim>\<open>detail\<close> holds a truthy value under one of
  the two keys, that nested object is the root; otherwise the result is "unrecognized".
\<close>

theorem anomaly_payload_root:
  "(loads L s = None \<longrightarrow> anomaly_payload L (JStr s) = JNull)
   \<and> (\<forall>parsed. loads L s = Some parsed \<and> (\<forall>m. parsed \<noteq> JDict m)
        \<longrightarrow> anomaly_payload L (JStr s) = JNull)
   \<and> (\<forall>m. loads L s = Some (JDict m) \<and> has_identifier m
        \<longrightarrow> anomaly_payload L (JStr s) = JDict m)
   \<and> (\<forall>m. loads L s = Some (JDict m) \<and> \<not> has_identifier m \<and> has_identifier (detail_of m)
        \<longrightarrow> anomaly_payload L (JStr s) = JDict (detail_of m))
   \<and> (\<forall>m. loads L s = Some (JDict m) \<and> \<not> has_identifier m \<and> \<not> has_identifier (detail_of m)
        \<longrightarrow> anomaly_payload L (JStr s) = JNull)"
  by (simp add: anomaly_payload_def json_loads_def select_anomaly_flat select_anomaly_nested
      select_anomaly_no_identifier select_anomaly_not_object)
   (simp add: select_anomaly_def)

theorem anomaly_payload_root_witness:
  \<open>anomaly_payload sample_lib (JStr ''{"AnomalyId": "a1", "Impact": {"TotalImpact": 7}}'')
     = JDict [(''AnomalyId'', JStr ''a1''), (''Impact'', JDict [(''TotalImpact'', JInt 7)])]
   \<and> anomaly_payload sample_lib
       (JStr ''{"detail": {"AnomalyId": "a1", "Impact": {"TotalImpact": 7}}}'')
     = JDict [(''AnomalyId'', JStr ''a1''), (''Impact'', JDict [(''TotalImpact'', JInt 7)])]
   \<and> anomaly_payload sample_lib (JStr ''[1, 2]'') = JNull
   \<and> anomaly_payload sample_lib (JStr ''not json'') = JNull\<close>
  using
    anomaly_payload_root [of sample_lib \<open>''{"AnomalyId": "a1", "Impact": {"TotalImpact": 7}}''\<close>]
    anomaly_payload_root
      [of sample_lib \<open>''{"detail": {"AnomalyId": "a1", "Impact": {"TotalImpact": 7}}}''\<close>]
    anomaly_payload_root [of sample_lib \<open>''[1, 2]''\<close>]
    anomaly_payload_root [of sample_lib \<open>''not json''\<close>]
  by (simp add: sample_lib_def sample_messages_def has_identifier_def detail_of_def dict_get_def)

section \<open>Properties of the fallback rendering\<close>

text \<open>
  C4. A message string that is not valid structured data, and a message string that parses
  but has no identifier field under either key, flat or under \<^verbatim>\<open>detail\<close>, renders to the
  fallback: the fixed header and one section whose text is the raw message between code
  fences, without an attachment; the rendering raises nothing, and it is what the loop
  computes for a record that carries the message.
\<close>

theorem fallback_rendering:
  "loads L s = None \<or> (\<exists>parsed. loads L s = Some parsed \<and> lacks_identifier_field parsed) \<Longrightarrow>
   render_message L (JStr s) =
     Inr (JDict [(''blocks'',
            JList [JDict [(''type'', JStr ''header''),
                          (''text'',
                           JDict [(''type'', JStr ''plain_text''),
                                  (''text'', JStr '':rotating_light: AWS Cost Anomaly Notification :rotating_light:''),
                                  (''emoji'', JBool True)])],
                   JDict [(''type'', JStr ''section''),
                          (''text'',
                           JDict [(''type'', JStr ''mrkdwn''),
                                  (''text'', JStr (''```'' @ s @ ''```''))])]])])
   \<and> record_payload L (JDict [(''Sns'', JDict [(''Message'', JStr s)])])
       = render_message L (JStr s)"
proof -
  assume "loads L s = None \<or> (\<exists>parsed. loads L s = Some parsed \<and> lacks_identifier_field parsed)"
  then have "anomaly_payload L (JStr s) = JNull"
    by (auto simp: anomaly_payload_def json_loads_def lacks_field_unrecognized)
      (simp add: select_anomaly_def)
  then have "render_message L (JStr s) = Inr (fallback_payload L (JStr s))"
    by (rule render_unrecognized)
  moreover have "record_payload L (JDict [(''Sns'', JDict [(''Message'', JStr s)])])
       = render_message L (JStr s)"
    by (simp add: record_payload_def dict_get_def py_or_def)
  ultimately show ?thesis
    by (simp add: fallback_payload_def)
qed

theorem fallback_rendering_witness:
  \<open>render_message sample_lib (JStr ''not json'') =
     Inr (JDict [(''blocks'',
            JList [JDict [(''type'', JStr ''header''),
                          (''text'',
                           JDict [(''type'', JStr ''plain_text''),
                                  (''text'', JStr '':rotating_light: AWS Cost Anomaly Notification :rotating_light:''),
                                  (''emoji'', JBool True)])],
                   JDict [(''type'', JStr ''section''),
                          (''text'',
                           JDict [(''type'', JStr ''mrkdwn''),
                                  (''text'', JStr ''```not json```'')])]])])
   \<and> render_message sample_lib (JStr ''{"impact": {"totalImpact": 7}}'') =
     Inr (JDict [(''blocks'',
            JList [JDict [(''type'', JStr ''header''),
                          (''text'',
                           JDict [(''type'', JStr ''plain_text''),
                                  (''text'', JStr '':rotating_light: AWS Cost Anomaly Notification :rotating_light:''),
                                  (''emoji'', JBool True)])],
                   JDict [(''type'', JStr ''section''),
                          (''text'',
                           JDict [(''type'', JStr ''mrkdwn''),
                                  (''text'', JStr ''```{"impact": {"totalImpact": 7}}```'')])]])])\<close>
proof -
  have a: "loads sample_lib ''not json'' = None"
    by (simp add: sample_lib_def sample_messages_def)
  have b: \<open>loads sample_lib ''{"impact": {"totalImpact": 7}}'' =
      Some (JDict [(''impact'', JDict [(''totalImpact'', JInt 7)])])\<close>
    by (simp add: sample_lib_def sample_messages_def)
  have c: "lacks_identifier_field (JDict [(''impact'', JDict [(''totalImpact'', JInt 7)])])"
    by (simp add: lacks_identifier_field_def has_identifier_field_def detail_of_def dict_get_def)
  from a b c show ?thesis
    using fallback_rendering [of sample_lib "''not json''"]
      fallback_rendering [of sample_lib \<open>''{"impact": {"totalImpact": 7}}''\<close>]
    by simp
qed



section \<open>Properties of the handler\<close>










text \<open>
  C6. For every event, every library and every network: when the webhook URL is not set (or
  is empty), the handler raises \<^verbatim>\<open>RuntimeError\<close> after writing one line to the standard
  error stream: no request is made and nothing of the event is read.
\<close>

theorem missing_webhook_fails:
  "webhook = None \<or> webhook = Some [] \<Longrightarrow>
   handler L net webhook event w =
     (Inl (RuntimeError ''SLACK_WEBHOOK_URL not set''),
      w\<lparr>stderr := stderr w @ [''Missing SLACK_WEBHOOK_URL environment variable'']\<rparr>)
   \<and> posts (snd (handler L net webhook event w)) = posts w"
  by (auto simp: handler_def)

theorem missing_webhook_fails_witness:
  "handler sample_lib steady_network None
      (JDict [(''Records'', JList [sample_record ''not json''])]) \<lparr>stderr = [], posts = []\<rparr>
    = (Inl (RuntimeError ''SLACK_WEBHOOK_URL not set''),
       \<lparr>stderr = [''Missing SLACK_WEBHOOK_URL environment variable''], posts = []\<rparr>)
   \<and> handler sample_lib steady_network (Some []) (JInt 3) \<lparr>stderr = [], posts = []\<rparr>
    = (Inl (RuntimeError ''SLACK_WEBHOOK_URL not set''),
       \<lparr>stderr = [''Missing SLACK_WEBHOOK_URL environment variable''], posts = []\<rparr>)"
  using
    missing_webhook_fails [of None sample_lib steady_network
      "JDict [(''Records'', JList [sample_record ''not json''])]" "\<lparr>stderr = [], posts = []\<rparr>"]
    missing_webhook_fails [of "Some []" sample_lib steady_network "JInt 3"
      "\<lparr>stderr = [], posts = []\<rparr>"]
  by simp

section \<open>Properties of the account info\<close>

lemma get_any_default:
  "get_any d paths dflt = (if get_any d paths JNull = JNull then dflt else get_any d paths JNull)"
  by (induction paths) (simp_all add: Let_def)

lemma safe_get_key_falsy: "\<not> truthy rc \<Longrightarrow> safe_get rc [k] JNull = JNull"
  by (cases rc) (simp_all add: dict_get_def)

lemma get_any_falsy_entry:
  "\<not> truthy rc \<Longrightarrow> get_any (JDict []) [[k], [k']] dflt = get_any rc [[k], [k']] dflt"
  by (simp add: safe_get_key_falsy del: safe_get.simps)

lemma get_any_entry: "get_any (py_or rc (JDict [])) [[k], [k']] dflt = get_any rc [[k], [k']] dflt"
  by (cases "truthy rc") (simp_all add: py_or_def get_any_falsy_entry del: get_any.simps)

lemma root_causes_value:
  "py_or (get_any a paths (JList [])) (JList []) =
     (if truthy (get_any a paths JNull) then get_any a paths JNull else JList [])"
  by (subst get_any_default) (simp add: py_or_def)

lemma first_root_cause_none:
  "first_root_cause a = None \<Longrightarrow>
   \<not> truthy (get_any a [[''RootCauses''], [''rootCauses'']] JNull)
   \<or> \<not> is_list (get_any a [[''RootCauses''], [''rootCauses'']] JNull)"
proof -
  assume none: "first_root_cause a = None"
  show ?thesis
  proof (cases "get_any a [[''RootCauses''], [''rootCauses'']] JNull")
    case (JList xs)
    with none show ?thesis
      by (cases xs) (simp_all add: first_root_cause_def del: get_any.simps)
  qed (simp_all del: get_any.simps)
qed

lemma first_root_cause_some:
  "first_root_cause a = Some rc \<Longrightarrow>
   \<exists>rest. get_any a [[''RootCauses''], [''rootCauses'']] JNull = JList (rc # rest)"
proof -
  assume some: "first_root_cause a = Some rc"
  show ?thesis
  proof (cases "get_any a [[''RootCauses''], [''rootCauses'']] JNull")
    case (JList xs)
    with some show ?thesis
      by (cases xs) (simp_all add: first_root_cause_def del: get_any.simps)
  qed (use some in \<open>simp_all add: first_root_cause_def del: get_any.simps\<close>)
qed

lemma get_account_info_none:
  "first_root_cause a = None \<Longrightarrow> get_account_info L a = (JNull, JNull)"
proof -
  assume "first_root_cause a = None"
  then have "\<not> truthy (get_any a [[''RootCauses''], [''rootCauses'']] JNull)
   \<or> \<not> is_list (get_any a [[''RootCauses''], [''rootCauses'']] JNull)"
    by (rule first_root_cause_none)
  then show ?thesis
    unfolding get_account_info_def root_causes_value
    by (auto simp del: get_any.simps)
qed

lemma get_account_info_some:
  "first_root_cause a = Some rc \<Longrightarrow>
   get_account_info L a =
     (if \<not> truthy (linked_account rc) then (JNull, JNull)
      else (JStr (strip (py_str L (linked_account rc))), linked_account_name rc))"
proof -
  assume "first_root_cause a = Some rc"
  then obtain rest where
    "get_any a [[''RootCauses''], [''rootCauses'']] JNull = JList (rc # rest)"
    using first_root_cause_some by blast
  then show ?thesis
    unfolding get_account_info_def root_causes_value
    by (simp add: Let_def get_any_entry linked_account_def linked_account_name_def
        del: get_any.simps)
qed

lemma lstrip_with_suffix: "suffix (lstrip_with ws s) s"
proof (induction ws s rule: lstrip_with.induct)
  case (1 ws s)
  show ?case
  proof (cases "List.find (\<lambda>w. w \<noteq> [] \<and> prefix w s) ws")
    case None
    then show ?thesis by (subst lstrip_with.simps) simp
  next
    case (Some w)
    with 1 have "suffix (lstrip_with ws (drop (length w) s)) (drop (length w) s)" by simp
    then have "suffix (lstrip_with ws (drop (length w) s)) s"
      using suffix_drop suffix_order.trans by blast
    with Some show ?thesis by (subst lstrip_with.simps) simp
  qed
qed

lemma lstrip_with_no_prefix:
  "w \<in> set ws \<Longrightarrow> w \<noteq> [] \<Longrightarrow> \<not> prefix w (lstrip_with ws s)"
proof (induction ws s rule: lstrip_with.induct)
  case (1 ws s)
  show ?case
  proof (cases "List.find (\<lambda>w. w \<noteq> [] \<and> prefix w s) ws")
    case None
    with 1(2,3) have "\<not> prefix w s" by (auto simp: find_None_iff)
    with None show ?thesis by (subst lstrip_with.simps) simp
  next
    case (Some v)
    with 1 have "\<not> prefix w (lstrip_with ws (drop (length v) s))" by simp
    with Some show ?thesis by (subst lstrip_with.simps) simp
  qed
qed

lemma strip_trimmed:
  assumes "w \<in> set whitespace"
  shows "\<not> prefix w (strip s) \<and> \<not> suffix w (strip s)"
proof
  from assms have w: "w \<noteq> []" by (auto simp: whitespace_def)
  let ?l = "lstrip_with whitespace s"
  have "suffix (lstrip_with (map rev whitespace) (rev ?l)) (rev ?l)"
    by (rule lstrip_with_suffix)
  then have "prefix (strip s) ?l"
    by (simp add: strip_def suffix_to_prefix)
  moreover from assms w have "\<not> prefix w ?l" by (rule lstrip_with_no_prefix)
  ultimately show "\<not> prefix w (strip s)"
    using prefix_order.trans by blast
  from assms w have "\<not> prefix (rev w) (lstrip_with (map rev whitespace) (rev ?l))"
    by (intro lstrip_with_no_prefix) simp_all
  then show "\<not> suffix w (strip s)"
    by (simp add: strip_def suffix_to_prefix)
qed

text \<open>
  C8. The account id and name come from the first root-cause entry alone. When the root
  causes do not resolve to a non-empty list, or the first entry has no linked-account id
  (the id resolves to a falsy value: absent, null, empty, zero or false), both values are
  \<^verbatim>\<open>None\<close>, whatever the name resolves to. Otherwise the id returned is the text of the id
  with no white-space character left at either end, together with the resolved name. A name
  is never returned next to a \<^verbatim>\<open>None\<close> id.
\<close>

theorem account_info_resolution:
  "(first_root_cause a = None \<longrightarrow> get_account_info L a = (JNull, JNull))
   \<and> (first_root_cause a = Some rc \<and> \<not> truthy (linked_account rc)
        \<longrightarrow> get_account_info L a = (JNull, JNull))
   \<and> (first_root_cause a = Some rc \<and> truthy (linked_account rc)
        \<longrightarrow> get_account_info L a
            = (JStr (strip (py_str L (linked_account rc))), linked_account_name rc))
   \<and> (\<forall>w\<in>set whitespace. \<not> prefix w (strip s) \<and> \<not> suffix w (strip s))
   \<and> get_account_info L (JDict [(''RootCauses'', JList (rc # rest))])
       = get_account_info L (JDict [(''RootCauses'', JList [rc])])
   \<and> (fst (get_account_info L a) = JNull \<longrightarrow> snd (get_account_info L a) = JNull)"
proof -
  have only_first: "get_account_info L (JDict [(''RootCauses'', JList (rc # rest))])
       = get_account_info L (JDict [(''RootCauses'', JList [rc])])"
  proof -
    have "first_root_cause (JDict [(''RootCauses'', JList (rc # rest))]) = Some rc"
      and "first_root_cause (JDict [(''RootCauses'', JList [rc])]) = Some rc"
      by (simp_all add: first_root_cause_def dict_get_def)
    then show ?thesis by (simp add: get_account_info_some)
  qed
  have coupled: "snd (get_account_info L a) = JNull" if "fst (get_account_info L a) = JNull"
  proof (cases "first_root_cause a")
    case None
    then show ?thesis by (simp add: get_account_info_none)
  next
    case (Some first)
    with that show ?thesis by (simp add: get_account_info_some split: if_splits)
  qed
  from only_first coupled show ?thesis
    by (simp add: get_account_info_none get_account_info_some strip_trimmed)
qed

theorem account_info_resolution_witness:
  "get_account_info sample_lib
     (JDict [(''RootCauses'',
        JList [JDict [(''LinkedAccount'', JStr '' 123456789012 ''),
                      (''LinkedAccountName'', JStr ''Prod'')],
               JDict [(''LinkedAccount'', JStr ''999'')]])])
     = (JStr ''123456789012'', JStr ''Prod'')
   \<and> get_account_info sample_lib
     (JDict [(''rootCauses'', JList [JDict [(''linkedAccountName'', JStr ''Prod'')]])])
     = (JNull, JNull)
   \<and> get_account_info sample_lib (JDict [(''AnomalyId'', JStr ''a1'')]) = (JNull, JNull)"
proof -
  have trim: "strip '' 123456789012 '' = ''123456789012''"
    by code_simp
  show ?thesis
    using
      account_info_resolution [of "JDict [(''RootCauses'',
          JList [JDict [(''LinkedAccount'', JStr '' 123456789012 ''),
                        (''LinkedAccountName'', JStr ''Prod'')],
                 JDict [(''LinkedAccount'', JStr ''999'')]])]" sample_lib
        "JDict [(''LinkedAccount'', JStr '' 123456789012 ''),
                (''LinkedAccountName'', JStr ''Prod'')]"]
      account_info_resolution [of
        "JDict [(''rootCauses'', JList [JDict [(''linkedAccountName'', JStr ''Prod'')]])]"
        sample_lib "JDict [(''linkedAccountName'', JStr ''Prod'')]"]
      account_info_resolution [of "JDict [(''AnomalyId'', JStr ''a1'')]" sample_lib]
    by (simp add: first_root_cause_def linked_account_def linked_account_name_def
        dict_get_def trim)
qed

section \<open>Properties of the two naming conventions\<close>

lemma key_pairs_distinct:
  "distinct (map fst key_pairs)" "distinct (map snd key_pairs)"
  "set (map fst key_pairs) \<inter> set (map snd key_pairs) = {}"
  by (simp_all add: key_pairs_def)

lemma camel_key_eq:
  assumes "(T, C) \<in> set key_pairs" and "k \<notin> set (map snd key_pairs)"
  shows "(camel_key k = C) = (k = T)"
proof (cases "map_of key_pairs k")
  case None
  then have "k \<noteq> T" using assms(1) by (metis map_of_eq_None_iff fst_conv image_eqI)
  moreover from assms have "k \<noteq> C" by force
  ultimately show ?thesis using None by (simp add: camel_key_def)
next
  case (Some c)
  then have kc: "(k, c) \<in> set key_pairs" by (rule map_of_SomeD)
  have "c = C \<longleftrightarrow> k = T"
  proof
    assume "c = C"
    with kc assms(1) key_pairs_distinct(2) show "k = T"
      by (metis eq_key_imp_eq_value distinct_map inj_onD map_of_SomeD Some snd_conv
          prod.inject[symmetric] prod.collapse fst_conv)
  next
    assume "k = T"
    with kc assms(1) key_pairs_distinct(1) show "c = C"
      by (metis eq_key_imp_eq_value)
  qed
  with Some show ?thesis by (simp add: camel_key_def)
qed

lemma camel_key_not_title:
  assumes "T \<in> set (map fst key_pairs)"
  shows "camel_key k \<noteq> T"
proof (cases "map_of key_pairs k")
  case None
  then have "camel_key k = k" by (simp add: camel_key_def)
  moreover from None have "k \<notin> set (map fst key_pairs)"
    by (simp add: map_of_eq_None_iff)
  ultimately show ?thesis using assms by auto
next
  case (Some c)
  then have "c \<in> set (map snd key_pairs)"
    by (metis map_of_SomeD image_eqI snd_conv set_map)
  with assms key_pairs_distinct(3) have "c \<noteq> T" by auto
  with Some show ?thesis by (simp add: camel_key_def)
qed

lemma rename_lookup:
  assumes "list_all (\<lambda>(k, x). k \<notin> set (map snd key_pairs)) m" and "(T, C) \<in> set key_pairs"
  shows "map_of (rename_keys f m) C = map_option (f T) (map_of m T)"
    and "map_of (rename_keys f m) T = None"
    and "map_of m C = None"
proof -
  from assms(2) have T: "T \<in> set (map fst key_pairs)" and C: "C \<in> set (map snd key_pairs)"
    by force+
  from assms(1) show "map_of (rename_keys f m) C = map_option (f T) (map_of m T)"
  proof (induction m)
    case Nil
    show ?case by (simp add: rename_keys_def)
  next
    case (Cons kx m)
    obtain k x where kx: "kx = (k, x)" by (cases kx)
    with Cons.prems have "k \<notin> set (map snd key_pairs)" by simp
    with assms(2) have "(camel_key k = C) = (k = T)" by (rule camel_key_eq)
    then have eq: "(C = camel_key k) = (T = k)" by auto
    from Cons have "map_of (rename_keys f m) C = map_option (f T) (map_of m T)" by simp
    with kx eq show ?case by (auto simp: rename_keys_def)
  qed
  show "map_of (rename_keys f m) T = None"
    by (induction m)
      (auto simp: rename_keys_def camel_key_not_title [OF T]
        camel_key_not_title [OF T, THEN not_sym])
  from assms(1) C have "C \<notin> fst ` set m"
    by (fastforce simp: list_all_iff)
  then show "map_of m C = None"
    by (simp add: map_of_eq_None_iff)
qed

lemma safe_get_key:
  "safe_get v [k] JNull = (case v of JDict m \<Rightarrow> dict_get m k | _ \<Rightarrow> JNull)"
  by (cases v) simp_all

lemma safe_get_camel_object:
  assumes "capitalized_object v" and "(T, C) \<in> set key_pairs"
  shows "safe_get (camel_object v) [C] JNull = safe_get v [T] JNull"
    and "safe_get (camel_object v) [T] JNull = JNull"
    and "safe_get v [C] JNull = JNull"
proof -
  show "safe_get (camel_object v) [C] JNull = safe_get v [T] JNull"
  proof (cases v)
    case (JDict m)
    with assms have "map_of (rename_keys (\<lambda>k x. x) m) C = map_option (\<lambda>x. x) (map_of m T)"
      by (intro rename_lookup) (simp_all add: capitalized_object_def)
    with JDict show ?thesis
      by (simp add: camel_object_def dict_get_def split: option.splits)
  qed (simp_all add: camel_object_def)
  show "safe_get (camel_object v) [T] JNull = JNull"
  proof (cases v)
    case (JDict m)
    with assms have "map_of (rename_keys (\<lambda>k x. x) m) T = None"
      by (intro rename_lookup) (simp_all add: capitalized_object_def)
    with JDict show ?thesis
      by (simp add: camel_object_def dict_get_def)
  qed (simp_all add: camel_object_def)
  show "safe_get v [C] JNull = JNull"
  proof (cases v)
    case (JDict m)
    with assms have "map_of m C = None"
      by (intro rename_lookup(3)) (simp_all add: capitalized_object_def)
    with JDict show ?thesis
      by (simp add: dict_get_def)
  qed simp_all
qed

lemma get_any_camel_object:
  assumes "capitalized_object v" and "(T, C) \<in> set key_pairs"
  shows "get_any (camel_object v) [[T], [C]] d = get_any v [[T], [C]] d"
  using safe_get_camel_object [OF assms]
  by (simp add: Let_def del: safe_get.simps)

lemma camel_null [simp]:
  "camel_object JNull = JNull" "camel_causes JNull = JNull" "camel_field k JNull = JNull"
  by (simp_all add: camel_object_def camel_causes_def camel_field_def)

lemma camel_truthy:
  "truthy (camel_object v) = truthy v" "truthy (camel_causes v) = truthy v"
  by (cases v; simp add: camel_object_def camel_causes_def rename_keys_def)+

lemma camel_is_null:
  "(camel_object v = JNull) = (v = JNull)" "(camel_causes v = JNull) = (v = JNull)"
  by (cases v; simp add: camel_object_def camel_causes_def)+

lemma dict_get_camel_payload:
  assumes "capitalized_object (JDict m)" and "(T, C) \<in> set key_pairs"
  shows "dict_get (rename_keys camel_field m) C = camel_field T (dict_get m T)"
    and "dict_get (rename_keys camel_field m) T = JNull"
    and "dict_get m C = JNull"
proof -
  from assms have cap: "list_all (\<lambda>(k, x). k \<notin> set (map snd key_pairs)) m"
    by (simp add: capitalized_object_def)
  from cap assms(2)
  have "map_of (rename_keys camel_field m) C = map_option (camel_field T) (map_of m T)"
    by (rule rename_lookup)
  then show "dict_get (rename_keys camel_field m) C = camel_field T (dict_get m T)"
    by (simp add: dict_get_def split: option.splits)
  from cap assms(2) have "map_of (rename_keys camel_field m) T = None"
    by (rule rename_lookup)
  then show "dict_get (rename_keys camel_field m) T = JNull"
    by (simp add: dict_get_def)
  from cap assms(2) have "map_of m C = None"
    by (rule rename_lookup)
  then show "dict_get m C = JNull"
    by (simp add: dict_get_def)
qed

lemma get_any_camel_leaf:
  assumes "capitalized_object v" and "(T, C) \<in> set key_pairs"
    and "T \<noteq> ''Impact''" and "T \<noteq> ''RootCauses''"
  shows "get_any (camel_payload v) [[T], [C]] d = get_any v [[T], [C]] d"
    and "get_any (camel_payload v) [[C], [T]] d = get_any v [[C], [T]] d"
proof -
  from assms(3,4) have leaf: "camel_field T x = x" for x
    by (simp add: camel_field_def)
  show "get_any (camel_payload v) [[T], [C]] d = get_any v [[T], [C]] d"
  proof (cases v)
    case (JDict m)
    with assms(1,2) show ?thesis
      by (simp add: camel_payload_def dict_get_camel_payload leaf Let_def)
  qed (simp_all add: camel_payload_def)
  show "get_any (camel_payload v) [[C], [T]] d = get_any v [[C], [T]] d"
  proof (cases v)
    case (JDict m)
    with assms(1,2) show ?thesis
      by (simp add: camel_payload_def dict_get_camel_payload leaf Let_def)
  qed (simp_all add: camel_payload_def)
qed

lemma get_any_camel_impact:
  assumes "capitalized_payload v" and "(T, C) \<in> set key_pairs"
  shows "get_any (camel_payload v) [[''Impact'', T], [''impact'', C]] d
       = get_any v [[''Impact'', T], [''impact'', C]] d"
proof (cases v)
  case (JDict m)
  have pair: "(''Impact'', ''impact'') \<in> set key_pairs" by (simp add: key_pairs_def)
  from JDict assms(1) have cap: "capitalized_object (JDict m)"
    and inner: "capitalized_object (dict_get m ''Impact'')"
    by (simp_all add: capitalized_payload_def)
  have field: "camel_field ''Impact'' x = camel_object x" for x
    by (simp add: camel_field_def)
  have up: "safe_get (JDict m) (''Impact'' # p) JNull = safe_get (dict_get m ''Impact'') p JNull"
    "safe_get (JDict m) (''impact'' # p) JNull = safe_get (dict_get m ''impact'') p JNull"
    "safe_get (JDict (rename_keys camel_field m)) (''Impact'' # p) JNull
       = safe_get (dict_get (rename_keys camel_field m) ''Impact'') p JNull"
    "safe_get (JDict (rename_keys camel_field m)) (''impact'' # p) JNull
       = safe_get (dict_get (rename_keys camel_field m) ''impact'') p JNull" for p
    by simp_all
  have null: "safe_get JNull [k] JNull = JNull" for k by simp
  show ?thesis
    unfolding JDict camel_payload_def json.case get_any.simps up
      dict_get_camel_payload [OF cap pair] field null
      safe_get_camel_object [OF inner assms(2)]
    by (simp add: Let_def del: safe_get.simps)
qed (simp_all add: camel_payload_def)

lemma get_any_camel_causes:
  assumes "capitalized_object v"
  shows "get_any (camel_payload v) [[''RootCauses''], [''rootCauses'']] JNull
       = camel_causes (get_any v [[''RootCauses''], [''rootCauses'']] JNull)"
proof (cases v)
  case (JDict m)
  have pair: "(''RootCauses'', ''rootCauses'') \<in> set key_pairs" by (simp add: key_pairs_def)
  have field: "camel_field ''RootCauses'' x = camel_causes x" for x
    by (simp add: camel_field_def)
  from JDict assms show ?thesis
    by (simp add: camel_payload_def dict_get_camel_payload [OF _ pair] field Let_def
        camel_is_null)
qed (simp_all add: camel_payload_def camel_causes_def)

lemma root_causes_capitalized:
  assumes "capitalized_payload v"
    and "get_any v [[''RootCauses''], [''rootCauses'']] JNull = JList xs"
  shows "list_all capitalized_object xs"
proof (cases v)
  case (JDict m)
  have pair: "(''RootCauses'', ''rootCauses'') \<in> set key_pairs" by (simp add: key_pairs_def)
  from JDict assms(1) have cap: "capitalized_object (JDict m)"
    by (simp add: capitalized_payload_def)
  from cap pair have "dict_get m ''rootCauses'' = JNull"
    by (rule dict_get_camel_payload)
  with assms(2) JDict have "dict_get m ''RootCauses'' = JList xs"
    by (simp add: Let_def split: if_splits)
  with JDict assms(1) show ?thesis
    by (simp add: capitalized_payload_def)
next
  case JNull
  with assms(2) show ?thesis by simp
qed (use assms(2) in simp_all)

lemma first_root_cause_camel:
  assumes "capitalized_payload v"
  shows "first_root_cause (camel_payload v) = map_option camel_object (first_root_cause v)"
    and "first_root_cause v = Some rc \<Longrightarrow> capitalized_object rc"
proof -
  from assms have cap: "capitalized_object v"
    by (cases v) (simp_all add: capitalized_payload_def capitalized_object_def)
  show "first_root_cause (camel_payload v) = map_option camel_object (first_root_cause v)"
    unfolding first_root_cause_def get_any_camel_causes [OF cap]
    by (cases "get_any v [[''RootCauses''], [''rootCauses'']] JNull")
      (simp_all add: camel_causes_def split: list.splits del: get_any.simps)
  assume "first_root_cause v = Some rc"
  then obtain rest where "get_any v [[''RootCauses''], [''rootCauses'']] JNull = JList (rc # rest)"
    using first_root_cause_some by blast
  with assms have "list_all capitalized_object (rc # rest)"
    by (rule root_causes_capitalized)
  then show "capitalized_object rc" by simp
qed

lemma entry_pairs:
  "(''Service'', ''service'') \<in> set key_pairs"
  "(''LinkedAccount'', ''linkedAccount'') \<in> set key_pairs"
  "(''LinkedAccountName'', ''linkedAccountName'') \<in> set key_pairs"
  "(''Region'', ''region'') \<in> set key_pairs"
  "(''UsageType'', ''usageType'') \<in> set key_pairs"
  by (simp_all add: key_pairs_def)

lemma get_account_info_camel:
  assumes "capitalized_payload v"
  shows "get_account_info L (camel_payload v) = get_account_info L v"
proof (cases "first_root_cause v")
  case None
  with assms have "first_root_cause (camel_payload v) = None"
    by (simp add: first_root_cause_camel)
  with None show ?thesis by (simp add: get_account_info_none)
next
  case (Some rc)
  with assms have rc: "capitalized_object rc" by (rule first_root_cause_camel)
  from Some assms have "first_root_cause (camel_payload v) = Some (camel_object rc)"
    by (simp add: first_root_cause_camel)
  moreover have "linked_account (camel_object rc) = linked_account rc"
    "linked_account_name (camel_object rc) = linked_account_name rc"
    unfolding linked_account_def linked_account_name_def
    by (rule get_any_camel_object [OF rc], rule entry_pairs)+
  ultimately show ?thesis using Some
    by (simp add: get_account_info_some)
qed

lemma root_cause_fields_none:
  "first_root_cause a = None \<Longrightarrow> root_cause_fields L a = []"
proof -
  assume "first_root_cause a = None"
  then have "\<not> truthy (get_any a [[''RootCauses''], [''rootCauses'']] JNull)
   \<or> \<not> is_list (get_any a [[''RootCauses''], [''rootCauses'']] JNull)"
    by (rule first_root_cause_none)
  then show ?thesis
    unfolding root_cause_fields_def root_causes_value
    by (auto simp del: get_any.simps)
qed

lemma root_cause_fields_some:
  "first_root_cause a = Some rc \<Longrightarrow>
   root_cause_fields L a = root_cause_fields L (JDict [(''RootCauses'', JList [rc])])"
proof -
  assume "first_root_cause a = Some rc"
  then obtain rest where
    "get_any a [[''RootCauses''], [''rootCauses'']] JNull = JList (rc # rest)"
    using first_root_cause_some by blast
  moreover have "get_any (JDict [(''RootCauses'', JList [rc])])
      [[''RootCauses''], [''rootCauses'']] JNull = JList [rc]"
    by (simp add: dict_get_def)
  ultimately show ?thesis
    unfolding root_cause_fields_def root_causes_value
    by (simp del: get_any.simps)
qed

lemma root_cause_fields_entry:
  assumes "capitalized_object rc"
  shows "root_cause_fields L (JDict [(''RootCauses'', JList [camel_object rc])])
       = root_cause_fields L (JDict [(''RootCauses'', JList [rc])])"
proof -
  have top: "get_any (JDict [(''RootCauses'', JList [x])])
      [[''RootCauses''], [''rootCauses'']] JNull = JList [x]" for x
    by (simp add: dict_get_def)
  show ?thesis
    unfolding root_cause_fields_def root_causes_value top
    by (simp add: get_any_entry get_any_camel_object [OF assms] entry_pairs
        del: get_any.simps)
qed

lemma root_cause_fields_camel:
  assumes "capitalized_payload v"
  shows "root_cause_fields L (camel_payload v) = root_cause_fields L v"
proof (cases "first_root_cause v")
  case None
  with assms have "first_root_cause (camel_payload v) = None"
    by (simp add: first_root_cause_camel)
  with None show ?thesis by (simp add: root_cause_fields_none)
next
  case (Some rc)
  with assms have rc: "capitalized_object rc" by (rule first_root_cause_camel)
  from Some assms have "first_root_cause (camel_payload v) = Some (camel_object rc)"
    by (simp add: first_root_cause_camel)
  then have "root_cause_fields L (camel_payload v)
      = root_cause_fields L (JDict [(''RootCauses'', JList [camel_object rc])])"
    by (rule root_cause_fields_some)
  also from rc have "\<dots> = root_cause_fields L (JDict [(''RootCauses'', JList [rc])])"
    by (rule root_cause_fields_entry)
  also from Some have "\<dots> = root_cause_fields L v"
    by (rule root_cause_fields_some [symmetric])
  finally show ?thesis .
qed

lemma root_pairs:
  "(''AnomalyId'', ''anomalyId'') \<in> set key_pairs"
  "(''AnomalyStartDate'', ''anomalyStartDate'') \<in> set key_pairs"
  "(''AnomalyEndDate'', ''anomalyEndDate'') \<in> set key_pairs"
  "(''AnomalyDetailsLink'', ''anomalyDetailsLink'') \<in> set key_pairs"
  "(''TotalImpact'', ''totalImpact'') \<in> set key_pairs"
  "(''TotalImpactPercentage'', ''totalImpactPercentage'') \<in> set key_pairs"
  by (simp_all add: key_pairs_def)

lemma capitalized_payload_object: "capitalized_payload v \<Longrightarrow> capitalized_object v"
  by (cases v) (simp_all add: capitalized_payload_def capitalized_object_def)

lemma camel_payload_lookups:
  assumes "capitalized_payload v"
  shows "get_any (camel_payload v) [[''AnomalyId''], [''anomalyId'']] d
       = get_any v [[''AnomalyId''], [''anomalyId'']] d"
    and "get_any (camel_payload v) [[''AnomalyStartDate''], [''anomalyStartDate'']] d
       = get_any v [[''AnomalyStartDate''], [''anomalyStartDate'']] d"
    and "get_any (camel_payload v) [[''AnomalyEndDate''], [''anomalyEndDate'']] d
       = get_any v [[''AnomalyEndDate''], [''anomalyEndDate'']] d"
    and "get_any (camel_payload v) [[''anomalyDetailsLink''], [''AnomalyDetailsLink'']] d
       = get_any v [[''anomalyDetailsLink''], [''AnomalyDetailsLink'']] d"
    and "get_any (camel_payload v) [[''Impact'', ''TotalImpact''], [''impact'', ''totalImpact'']] d
       = get_any v [[''Impact'', ''TotalImpact''], [''impact'', ''totalImpact'']] d"
    and "get_any (camel_payload v)
           [[''Impact'', ''TotalImpactPercentage''], [''impact'', ''totalImpactPercentage'']] d
       = get_any v
           [[''Impact'', ''TotalImpactPercentage''], [''impact'', ''totalImpactPercentage'']] d"
proof -
  note cap = capitalized_payload_object [OF assms]
  show "get_any (camel_payload v) [[''AnomalyId''], [''anomalyId'']] d
       = get_any v [[''AnomalyId''], [''anomalyId'']] d"
    by (rule get_any_camel_leaf [OF cap root_pairs(1)]) simp_all
  show "get_any (camel_payload v) [[''AnomalyStartDate''], [''anomalyStartDate'']] d
       = get_any v [[''AnomalyStartDate''], [''anomalyStartDate'']] d"
    by (rule get_any_camel_leaf [OF cap root_pairs(2)]) simp_all
  show "get_any (camel_payload v) [[''AnomalyEndDate''], [''anomalyEndDate'']] d
       = get_any v [[''AnomalyEndDate''], [''anomalyEndDate'']] d"
    by (rule get_any_camel_leaf [OF cap root_pairs(3)]) simp_all
  show "get_any (camel_payload v) [[''anomalyDetailsLink''], [''AnomalyDetailsLink'']] d
       = get_any v [[''anomalyDetailsLink''], [''AnomalyDetailsLink'']] d"
    by (rule get_any_camel_leaf [OF cap root_pairs(4)]) simp_all
  show "get_any (camel_payload v) [[''Impact'', ''TotalImpact''], [''impact'', ''totalImpact'']] d
       = get_any v [[''Impact'', ''TotalImpact''], [''impact'', ''totalImpact'']] d"
    by (rule get_any_camel_impact [OF assms root_pairs(5)])
  show "get_any (camel_payload v)
           [[''Impact'', ''TotalImpactPercentage''], [''impact'', ''totalImpactPercentage'']] d
       = get_any v
           [[''Impact'', ''TotalImpactPercentage''], [''impact'', ''totalImpactPercentage'']] d"
    by (rule get_any_camel_impact [OF assms root_pairs(6)])
qed

lemma build_blocks_camel:
  assumes "capitalized_payload v"
  shows "build_blocks_for_anomaly L (camel_payload v) = build_blocks_for_anomaly L v"
  unfolding build_blocks_for_anomaly_def
  by (simp only: camel_payload_lookups [OF assms] root_cause_fields_camel [OF assms]
      get_account_info_camel [OF assms])

lemma camel_payload_truthy: "truthy (camel_payload v) = truthy v"
  by (cases v) (simp_all add: camel_payload_def rename_keys_def)

lemma build_payload_camel:
  assumes "capitalized_payload v"
  shows "build_payload L (camel_payload v) raw = build_payload L v raw"
  unfolding build_payload_def
  by (simp only: camel_payload_lookups [OF assms] build_blocks_camel [OF assms]
      camel_payload_truthy)

lemma valid_identifier_object:
  assumes "valid_identifier v"
  obtains m where "v = JDict m" and "has_identifier m"
proof (cases v)
  case (JDict m)
  with assms have "has_identifier m"
    by (auto simp: valid_identifier_def has_identifier_def Let_def split: if_splits)
  with JDict that show ?thesis by blast
qed (use assms in \<open>simp_all add: valid_identifier_def\<close>)

lemma valid_identifier_select:
  "valid_identifier v \<Longrightarrow> select_anomaly (Some v) = v"
  by (erule valid_identifier_object) (simp add: select_anomaly_flat)

lemma build_payload_raw:
  assumes "valid_identifier v"
  shows "build_payload L v raw = build_payload L v raw'"
proof -
  from assms obtain m where "v = JDict m" and "has_identifier m"
    by (rule valid_identifier_object)
  then have "truthy v"
    by (cases m) (simp_all add: has_identifier_def dict_get_def)
  with assms show ?thesis
    by (simp add: build_payload_def valid_identifier_def del: get_any.simps)
qed

text \<open>
  C7, as the specification states it, at the payload \<^verbatim>\<open>{"Impact": {"TotalImpact": 7}}\<close> and
  its lower-camel twin: the field values are the same, and the rendered outputs differ,
  since neither payload has an identifier and the fallback embeds the text of each message.
\<close>

theorem convention_counterexample:
  \<open>loads sample_lib ''{"Impact": {"TotalImpact": 7}}''
     = Some (JDict [(''Impact'', JDict [(''TotalImpact'', JInt 7)])])
   \<and> loads sample_lib ''{"impact": {"totalImpact": 7}}''
     = Some (camel_payload (JDict [(''Impact'', JDict [(''TotalImpact'', JInt 7)])]))
   \<and> capitalized_payload (JDict [(''Impact'', JDict [(''TotalImpact'', JInt 7)])])
   \<and> render_message sample_lib (JStr ''{"Impact": {"TotalImpact": 7}}'')
     \<noteq> render_message sample_lib (JStr ''{"impact": {"totalImpact": 7}}'')\<close>
  by (simp add: sample_lib_def sample_messages_def camel_payload_def rename_keys_def
      camel_key_def key_pairs_def camel_field_def camel_object_def capitalized_payload_def
      capitalized_object_def dict_get_def render_message_def anomaly_payload_def
      json_loads_def select_anomaly_def py_or_def build_payload_def fallback_payload_def)

text \<open>
  C7, amended. For every pair of payloads with identical field values, one with the
  capitalized keys and the other with the lower-camel keys, whose identifier is valid, the
  rendered outputs are equal; and for every payload with a valid identifier, the message
  that presents it under \<^verbatim>\<open>detail\<close> in a wrapper without an identifier of its own renders as
  the message that presents it flat.
\<close>

theorem convention_agnostic:
  "(loads L s = Some v \<and> loads L s' = Some (camel_payload v)
      \<and> capitalized_payload v \<and> valid_identifier v
      \<longrightarrow> render_message L (JStr s') = render_message L (JStr s))
   \<and> (loads L s = Some v \<and> valid_identifier v
      \<and> loads L t = Some (JDict w) \<and> dict_get w ''detail'' = v \<and> \<not> has_identifier w
      \<longrightarrow> render_message L (JStr t) = render_message L (JStr s))"
proof (intro conjI impI)
  assume a: "loads L s = Some v \<and> loads L s' = Some (camel_payload v)
      \<and> capitalized_payload v \<and> valid_identifier v"
  then have cap: "capitalized_payload v" and valid: "valid_identifier v" by simp_all
  from cap valid have "valid_identifier (camel_payload v)"
    by (simp add: valid_identifier_def camel_payload_lookups del: get_any.simps)
  with a have "render_message L (JStr s') = build_payload L (camel_payload v) (JStr s')"
    by (simp add: render_message_def anomaly_payload_def json_loads_def valid_identifier_select)
  also from cap have "\<dots> = build_payload L v (JStr s')"
    by (rule build_payload_camel)
  also from valid have "\<dots> = build_payload L v (JStr s)"
    by (rule build_payload_raw)
  also from a have "\<dots> = render_message L (JStr s)"
    by (simp add: render_message_def anomaly_payload_def json_loads_def valid_identifier_select)
  finally show "render_message L (JStr s') = render_message L (JStr s)" .
next
  assume a: "loads L s = Some v \<and> valid_identifier v
      \<and> loads L t = Some (JDict w) \<and> dict_get w ''detail'' = v \<and> \<not> has_identifier w"
  then have valid: "valid_identifier v" by simp
  then obtain m where v: "v = JDict m" and m: "has_identifier m"
    by (rule valid_identifier_object)
  with a have "detail_of w = m" by (simp add: detail_of_def)
  with a m v have "select_anomaly (Some (JDict w)) = v"
    by (simp add: select_anomaly_nested)
  with a have "render_message L (JStr t) = build_payload L v (JStr t)"
    by (simp add: render_message_def anomaly_payload_def json_loads_def)
  also from valid have "\<dots> = build_payload L v (JStr s)"
    by (rule build_payload_raw)
  also from a have "\<dots> = render_message L (JStr s)"
    by (simp add: render_message_def anomaly_payload_def json_loads_def valid_identifier_select)
  finally show "render_message L (JStr t) = render_message L (JStr s)" .
qed

theorem convention_agnostic_witness:
  \<open>render_message sample_lib (JStr ''{"anomalyId": "a1", "impact": {"totalImpact": 7}}'')
     = render_message sample_lib (JStr ''{"AnomalyId": "a1", "Impact": {"TotalImpact": 7}}'')
   \<and> render_message sample_lib
       (JStr ''{"detail": {"AnomalyId": "a1", "Impact": {"TotalImpact": 7}}}'')
     = render_message sample_lib (JStr ''{"AnomalyId": "a1", "Impact": {"TotalImpact": 7}}'')\<close>
proof -
  let ?v = "JDict [(''AnomalyId'', JStr ''a1''), (''Impact'', JDict [(''TotalImpact'', JInt 7)])]"
  have flat: \<open>loads sample_lib ''{"AnomalyId": "a1", "Impact": {"TotalImpact": 7}}'' = Some ?v\<close>
    by (simp add: sample_lib_def sample_messages_def)
  have camel: \<open>loads sample_lib ''{"anomalyId": "a1", "impact": {"totalImpact": 7}}''
      = Some (camel_payload ?v)\<close>
    by (simp add: sample_lib_def sample_messages_def camel_payload_def rename_keys_def
        camel_key_def key_pairs_def camel_field_def camel_object_def)
  have nested: \<open>loads sample_lib ''{"detail": {"AnomalyId": "a1", "Impact": {"TotalImpact": 7}}}''
      = Some (JDict [(''detail'', ?v)])\<close>
    by (simp add: sample_lib_def sample_messages_def)
  have cap: "capitalized_payload ?v"
    by (simp add: capitalized_payload_def capitalized_object_def key_pairs_def dict_get_def)
  have valid: "valid_identifier ?v"
    by (simp add: valid_identifier_def dict_get_def)
  have wrapper: "dict_get [(''detail'', ?v)] ''detail'' = ?v" "\<not> has_identifier [(''detail'', ?v)]"
    by (simp_all add: dict_get_def has_identifier_def)
  from flat camel nested cap valid wrapper show ?thesis
    using
      convention_agnostic [of sample_lib
        \<open>''{"AnomalyId": "a1", "Impact": {"TotalImpact": 7}}''\<close> ?v
        \<open>''{"anomalyId": "a1", "impact": {"totalImpact": 7}}''\<close>
        \<open>''{"detail": {"AnomalyId": "a1", "Impact": {"TotalImpact": 7}}}''\<close>
        "[(''detail'', ?v)]"]
    by simp
qed

section \<open>Totality of the rendering\<close>

text \<open>The rendering returns a payload for every object whose impact figures are not integers
  beyond the range of floats, whatever else the object holds or lacks.\<close>

lemma figure_text_total:
  "\<not> overflows v \<Longrightarrow> \<exists>t. figure_text L pre v post = Inr t"
  by (auto simp: overflows_def figure_text_def format_2f_def split: option.splits pynum.splits)

lemma build_blocks_total:
  assumes "\<not> overflows
      (get_any a [[''Impact'', ''TotalImpact''], [''impact'', ''totalImpact'']] JNull)"
    and "\<not> overflows
      (get_any a [[''Impact'', ''TotalImpactPercentage''], [''impact'', ''totalImpactPercentage'']]
         JNull)"
  shows "\<exists>blocks. build_blocks_for_anomaly L a = Inr blocks"
proof -
  from assms(1) obtain t where
    "figure_text L ''$''
       (get_any a [[''Impact'', ''TotalImpact''], [''impact'', ''totalImpact'']] JNull) [] = Inr t"
    using figure_text_total by blast
  moreover from assms(2) obtain u where
    "figure_text L []
       (get_any a [[''Impact'', ''TotalImpactPercentage''], [''impact'', ''totalImpactPercentage'']]
          JNull) ''%'' = Inr u"
    using figure_text_total by blast
  ultimately show ?thesis
    unfolding build_blocks_for_anomaly_def
    by (simp add: Let_def del: get_any.simps)
qed

lemma rendering_total_in_float_range:
  assumes "\<not> overflows
      (get_any a [[''Impact'', ''TotalImpact''], [''impact'', ''totalImpact'']] JNull)"
    and "\<not> overflows
      (get_any a [[''Impact'', ''TotalImpactPercentage''], [''impact'', ''totalImpactPercentage'']]
         JNull)"
  shows "\<exists>payload. build_payload L a raw = Inr payload"
proof -
  from assms obtain blocks where "build_blocks_for_anomaly L a = Inr blocks"
    using build_blocks_total by blast
  then show ?thesis
    by (simp add: build_payload_def Let_def del: get_any.simps)
qed

lemma huge_impact_overflow: "build_payload L huge_anomaly raw = Inl OverflowError"
  by (simp add: huge_anomaly_def build_payload_def build_blocks_for_anomaly_def figure_text_def
      format_2f_def dict_get_def Let_def)

text \<open>
  C9. For a parsed anomaly object with an identifier, rendering is meant to be total: no field
  that is missing or malformed raises. It is not at an anomaly whose total impact is an
  integer beyond the range of floats: the format of the impact raises \<^verbatim>\<open>OverflowError\<close>,
  nothing catches it, and the handler ends with that error at this record, before any
  request, also for the records that follow.
\<close>

theorem huge_impact_aborts:
  "render_message huge_lib (JStr huge_message) = Inl OverflowError
   \<and> handler huge_lib steady_network (Some sample_url)
       (JDict [(''Records'', JList [sample_record huge_message, sample_record ''not json''])])
       \<lparr>stderr = [], posts = []\<rparr>
     = (Inl OverflowError, \<lparr>stderr = [], posts = []\<rparr>)"
proof -
  have "valid_identifier huge_anomaly"
    by (simp add: valid_identifier_def huge_anomaly_def dict_get_def)
  then have "select_anomaly (Some huge_anomaly) = huge_anomaly"
    by (rule valid_identifier_select)
  then have render: "render_message huge_lib (JStr huge_message) = Inl OverflowError"
    by (simp add: render_message_def anomaly_payload_def json_loads_def huge_lib_def
        huge_impact_overflow)
  then have "record_payload huge_lib (sample_record huge_message) = Inl OverflowError"
    by (simp add: record_payload_def sample_record_def dict_get_def py_or_def)
  then have "handler huge_lib steady_network (Some sample_url)
       (JDict [(''Records'', JList [sample_record huge_message, sample_record ''not json''])])
       \<lparr>stderr = [], posts = []\<rparr>
     = (Inl OverflowError, \<lparr>stderr = [], posts = []\<rparr>)"
    by (simp add: handler_def sample_url_def dict_get_def py_or_def)
  with render show ?thesis by simp
qed

end
